theory Spec2Isabelle
  imports Main "HOL-Library.Word" "HOL-Library.AList" "HOL-Library.Log_Nat"
begin

section \<open>Python values\<close>

text \<open>
  The wrapper is dynamically typed: every argument of every method is an arbitrary
  object. The embedding fixes a universe of objects that covers what the methods
  inspect: \<open>None\<close>, booleans, integers, floats (their 64 bits of IEEE 754 binary64;
  the wrapper only passes them on and tests their truth value), strings, lists,
  dictionaries, \<open>datetime.datetime\<close> and \<open>datetime.date\<close> objects.
\<close>

datatype tz =
    Naive          \<comment> \<open>\<open>tzinfo is None\<close>\<close>
  | NoOffset       \<comment> \<open>a \<open>tzinfo\<close> whose \<open>utcoffset(dt)\<close> is \<open>None\<close>\<close>
  | Offset int     \<comment> \<open>a \<open>tzinfo\<close> whose \<open>utcoffset(dt)\<close> is a \<open>timedelta\<close> of that many microseconds\<close>

record datetime =
  year :: nat
  month :: nat
  day :: nat
  hour :: nat
  minute :: nat
  second :: nat
  microsecond :: nat
  tzinfo :: tz

datatype pyval =
    PNone
  | PBool bool
  | PInt int
  | PFloat "64 word"
  | PStr string
  | PList "pyval list"
  | PDict "(pyval \<times> pyval) list"
  | PDatetime datetime
  | PDate nat nat nat

datatype error =
    ValueError string
  | TypeError
  | AttributeError
  | OverflowError

text \<open>The truth value Python's \<open>if x:\<close> tests.\<close>

fun truthy :: "pyval \<Rightarrow> bool" where
  "truthy PNone = False"
| "truthy (PBool b) = b"
| "truthy (PInt n) = (n \<noteq> 0)"
| "truthy (PFloat w) = (w \<noteq> 0 \<and> w \<noteq> 0x8000000000000000)"
| "truthy (PStr s) = (s \<noteq> [])"
| "truthy (PList xs) = (xs \<noteq> [])"
| "truthy (PDict kvs) = (kvs \<noteq> [])"
| "truthy (PDatetime dt) = True"
| "truthy (PDate y m d) = True"

section \<open>Decimal numerals and \<open>str.join\<close>\<close>

fun digits :: "nat \<Rightarrow> string" where
  "digits n = (if n < 10 then [''0123456789'' ! n]
               else digits (n div 10) @ [''0123456789'' ! (n mod 10)])"

declare digits.simps [simp del]

text \<open>\<open>'%0wd' % n\<close> for a natural number: at least \<open>w\<close> digits, padded with zeroes.\<close>

definition zpad :: "nat \<Rightarrow> nat \<Rightarrow> string" where
  "zpad w n = replicate (w - length (digits n)) CHR ''0'' @ digits n"

definition show_int :: "int \<Rightarrow> string" where
  "show_int i = (if i < 0 then CHR ''-'' # digits (nat (- i)) else digits (nat i))"

fun join :: "string \<Rightarrow> string list \<Rightarrow> string" where
  "join sep [] = []"
| "join sep [x] = x"
| "join sep (x # y # ys) = x @ sep @ join sep (y # ys)"

text \<open>
  \<open>str.join\<close> accepts sequences of strings only: every item that is not a \<open>str\<close>
  raises \<open>TypeError\<close>.
\<close>

fun str_items :: "pyval list \<Rightarrow> error + string list" where
  "str_items [] = Inr []"
| "str_items (PStr s # vs) =
     (case str_items vs of Inl e \<Rightarrow> Inl e | Inr ss \<Rightarrow> Inr (s # ss))"
| "str_items (v # vs) = Inl TypeError"

text \<open>
  \<open>sep.join(v)\<close>: a list yields its items, a string its characters, a dictionary its
  keys; the other objects of the universe are not iterable.
\<close>

fun py_join :: "string \<Rightarrow> pyval \<Rightarrow> error + string" where
  "py_join sep (PList vs) =
     (case str_items vs of Inl e \<Rightarrow> Inl e | Inr ss \<Rightarrow> Inr (join sep ss))"
| "py_join sep (PStr s) = Inr (join sep (map (\<lambda>c. [c]) s))"
| "py_join sep (PDict kvs) =
     (case str_items (map fst kvs) of Inl e \<Rightarrow> Inl e | Inr ss \<Rightarrow> Inr (join sep ss))"
| "py_join sep v = Inl TypeError"

section \<open>The client, its collaborators and the program state\<close>

record client =
  api_key :: pyval
  self_account_id :: pyval

datatype http_method = GET | POST | PUT | DELETE

text \<open>
  What the session object receives: \<open>session.get(dest, params=params)\<close>,
  \<open>session.post(dest, json=data)\<close>, \<open>session.put(dest, json=data)\<close>,
  \<open>session.delete(dest)\<close>. A Python \<open>dict\<close> keeps its keys in insertion order, so the
  query parameters are an association list.
\<close>

record request =
  http_method :: http_method
  url :: string
  query_params :: "(string \<times> pyval) list option"
  json_body :: "pyval option"

text \<open>
  The attributes \<open>self.api_key\<close> and \<open>self.account_id\<close> are the fields of \<open>client\<close>
  (the second as \<open>self_account_id\<close>, since \<open>account_id\<close> names a parameter of most
  methods); \<open>self.session\<close> is the collaborator that receives the requests.
\<close>

text \<open>
  The state a call can read or change: the client object, how often the clock has been
  read, what has been printed, and the requests handed to the session so far.
\<close>

record state =
  self :: client
  clock_reads :: nat
  stdout :: "(string \<times> pyval) list list"
  sent :: "request list"

text \<open>
  The runtime around the wrapper: the instant the clock shows at its \<open>n\<close>-th read, the
  platform's conversion of a naive local time to seconds since the epoch (or the error
  it raises, as \<open>datetime.min.timestamp()\<close> does), and the built-in \<open>str\<close> of the
  objects whose text the embedding does not spell out.
\<close>

record env =
  clock :: "nat \<Rightarrow> datetime"
  local_seconds :: "datetime \<Rightarrow> error + int"
  str_of :: "pyval \<Rightarrow> string"

definition init :: "pyval \<Rightarrow> pyval \<Rightarrow> state" where
  "init key acct =
     \<lparr>self = \<lparr>api_key = key, self_account_id = acct\<rparr>, clock_reads = 0, stdout = [],
      sent = []\<rparr>"

text \<open>\<open>'{}'.format(v)\<close> is \<open>str(v)\<close>.\<close>

definition py_str :: "env \<Rightarrow> pyval \<Rightarrow> string" where
  "py_str e v =
     (case v of
        PNone \<Rightarrow> ''None''
      | PBool b \<Rightarrow> (if b then ''True'' else ''False'')
      | PInt i \<Rightarrow> show_int i
      | PStr s \<Rightarrow> s
      | _ \<Rightarrow> str_of e v)"

text \<open>\<open>datetime.datetime.utcnow()\<close>: a naive datetime, read from the clock anew.\<close>

definition utcnow :: "env \<Rightarrow> state \<Rightarrow> datetime \<times> state" where
  "utcnow e s =
     ((clock e (clock_reads s))\<lparr>tzinfo := Naive\<rparr>, s\<lparr>clock_reads := Suc (clock_reads s)\<rparr>)"

definition datetime_min :: datetime where
  "datetime_min =
     \<lparr>year = 1, month = 1, day = 1, hour = 0, minute = 0, second = 0, microsecond = 0,
      tzinfo = Naive\<rparr>"

section \<open>Private helpers\<close>

definition account_id_missing :: error where
  "account_id_missing = ValueError ''client initialized without account ID''"

definition private_account_id :: "state \<Rightarrow> error + pyval" where
  "private_account_id s =
     (if self_account_id (self s) = PNone then Inl account_id_missing
      else Inr (self_account_id (self s)))"

text \<open>
  \<open>strftime('%z')\<close>: empty without an offset, else \<open>\<plusminus>HHMM[SS[.ffffff]]\<close>.
\<close>

definition strftime_z :: "tz \<Rightarrow> string" where
  "strftime_z t =
     (case t of
        Naive \<Rightarrow> []
      | NoOffset \<Rightarrow> []
      | Offset off \<Rightarrow>
          (let a = nat \<bar>off\<bar>;
               h = a div 3600000000;
               m = (a mod 3600000000) div 60000000;
               sec = (a mod 60000000) div 1000000;
               u = a mod 1000000;
               hm = (if off < 0 then CHR ''-'' else CHR ''+'') # zpad 2 h @ zpad 2 m
           in if u \<noteq> 0 then hm @ zpad 2 sec @ CHR ''.'' # zpad 6 u
              else if sec \<noteq> 0 then hm @ zpad 2 sec
              else hm))"

text \<open>
  \<open>strftime('%Y-%m-%dT%H:%M:%S')\<close>. The C library behind CPython on Linux prints
  \<open>%Y\<close> as the plain decimal numeral of the year, so a year below 1000 has fewer than
  four digits (\<open>datetime.min\<close> gives \<open>1-01-01T00:00:00\<close>); month, day, hour, minute and
  second are two digits each.
\<close>

definition strftime_date :: "nat \<Rightarrow> nat \<Rightarrow> nat \<Rightarrow> string" where
  "strftime_date y m d = digits y @ CHR ''-'' # zpad 2 m @ CHR ''-'' # zpad 2 d"

definition strftime_time :: "nat \<Rightarrow> nat \<Rightarrow> nat \<Rightarrow> string" where
  "strftime_time h m sec = zpad 2 h @ CHR '':'' # zpad 2 m @ CHR '':'' # zpad 2 sec"

definition strftime_iso :: "datetime \<Rightarrow> string" where
  "strftime_iso dt =
     strftime_date (year dt) (month dt) (day dt) @ CHR ''T'' #
     strftime_time (hour dt) (minute dt) (second dt)"

text \<open>
  \<open>__format_datetime\<close>. A \<open>date\<close> has \<open>strftime\<close> too, with midnight as its time and
  no offset; an object without \<open>strftime\<close> raises \<open>AttributeError\<close>.
\<close>

fun format_datetime :: "pyval \<Rightarrow> error + string" where
  "format_datetime (PDatetime dt) =
     (let tz_offset = strftime_z (tzinfo dt);
          tz_offset = (if tz_offset \<noteq> [] then tz_offset else ''+0000'')
      in Inr (strftime_iso dt @ tz_offset))"
| "format_datetime (PDate y m d) =
     Inr (strftime_date y m d @ CHR ''T'' # strftime_time 0 0 0 @ ''+0000'')"
| "format_datetime v = Inl AttributeError"





subsection \<open>Milliseconds since the epoch\<close>










subsection \<open>Handing a request to the session\<close>

text \<open>
  The value a method returns is whatever the session answers; the embedding returns
  the request the session was given. \<open>__get_request\<close> has two positional parameters:
  a call that leaves \<open>params\<close> out (\<open>None\<close> below) raises \<open>TypeError\<close> before the
  body runs.
\<close>

definition base_url :: string where
  "base_url = ''https://api.tdameritrade.com''"

definition dispatch :: "request \<Rightarrow> state \<Rightarrow> (error + request) \<times> state" where
  "dispatch r s = (Inr r, s\<lparr>sent := sent s @ [r]\<rparr>)"

definition get_request ::
  "string \<Rightarrow> (string \<times> pyval) list option \<Rightarrow> state \<Rightarrow> (error + request) \<times> state" where
  "get_request path ps s =
     (case ps of
        None \<Rightarrow> (Inl TypeError, s)
      | Some q \<Rightarrow>
          dispatch \<lparr>http_method = GET, url = base_url @ path, query_params = Some q,
                    json_body = None\<rparr> s)"

definition post_request :: "string \<Rightarrow> pyval \<Rightarrow> state \<Rightarrow> (error + request) \<times> state" where
  "post_request path data s =
     dispatch \<lparr>http_method = POST, url = base_url @ path, query_params = None,
               json_body = Some data\<rparr> s"

definition put_request :: "string \<Rightarrow> pyval \<Rightarrow> state \<Rightarrow> (error + request) \<times> state" where
  "put_request path data s =
     dispatch \<lparr>http_method = PUT, url = base_url @ path, query_params = None,
               json_body = Some data\<rparr> s"

definition delete_request :: "string \<Rightarrow> state \<Rightarrow> (error + request) \<times> state" where
  "delete_request path s =
     dispatch \<lparr>http_method = DELETE, url = base_url @ path, query_params = None,
               json_body = None\<rparr> s"

section \<open>Orders\<close>

definition cancel_order :: "env \<Rightarrow> pyval \<Rightarrow> pyval \<Rightarrow> state \<Rightarrow> (error + request) \<times> state" where
  "cancel_order e order_id account_id s =
     (let path = ''/v1/accounts/'' @ py_str e account_id @ ''/orders/'' @ py_str e order_id
      in delete_request path s)"

definition get_order :: "env \<Rightarrow> pyval \<Rightarrow> pyval \<Rightarrow> state \<Rightarrow> (error + request) \<times> state" where
  "get_order e order_id account_id s =
     (let path = ''/v1/accounts/'' @ py_str e account_id @ ''/orders/'' @ py_str e order_id
      in get_request path None s)"

definition status_conflict :: error where
  "status_conflict = ValueError ''at most one of status or statuses may be set''"

definition make_order_query ::
  "env \<Rightarrow> pyval \<Rightarrow> pyval \<Rightarrow> pyval \<Rightarrow> pyval \<Rightarrow> pyval \<Rightarrow> state \<Rightarrow>
   (error + (string \<times> pyval) list) \<times> state" where
  "make_order_query e max_results from_entered_datetime to_entered_datetime status statuses s =
     (let from_entered_datetime =
            (if from_entered_datetime = PNone then PDatetime datetime_min
             else from_entered_datetime);
          (to_entered_datetime, s) =
            (if to_entered_datetime = PNone
             then (case utcnow e s of (now, s') \<Rightarrow> (PDatetime now, s'))
             else (to_entered_datetime, s))
      in case format_datetime from_entered_datetime of
           Inl err \<Rightarrow> (Inl err, s)
         | Inr f \<Rightarrow>
             (case format_datetime to_entered_datetime of
                Inl err \<Rightarrow> (Inl err, s)
              | Inr t \<Rightarrow>
                  (let params = [(''fromEnteredTime'', PStr f), (''toEnteredTime'', PStr t)];
                       params = (if truthy max_results
                                 then AList.update ''maxResults'' max_results params
                                 else params)
                   in if status \<noteq> PNone \<and> statuses \<noteq> PNone then (Inl status_conflict, s)
                      else
                        (let params = (if truthy status
                                       then AList.update ''status'' status params
                                       else params)
                         in if truthy statuses
                            then (case py_join '','' statuses of
                                    Inl err \<Rightarrow> (Inl err, s)
                                  | Inr joined \<Rightarrow>
                                      (Inr (AList.update ''status'' (PStr joined) params), s))
                            else (Inr params, s)))))"

definition get_orders_by_path ::
  "env \<Rightarrow> pyval \<Rightarrow> pyval \<Rightarrow> pyval \<Rightarrow> pyval \<Rightarrow> pyval \<Rightarrow> pyval \<Rightarrow> state \<Rightarrow>
   (error + request) \<times> state" where
  "get_orders_by_path e account_id max_results from_entered_datetime to_entered_datetime
       status statuses s =
     (let path = ''/v1/accounts/'' @ py_str e account_id @ ''/orders''
      in case make_order_query e max_results from_entered_datetime to_entered_datetime
                status statuses s of
           (Inl err, s') \<Rightarrow> (Inl err, s')
         | (Inr q, s') \<Rightarrow> get_request path (Some q) s')"

definition get_orders_by_query ::
  "env \<Rightarrow> pyval \<Rightarrow> pyval \<Rightarrow> pyval \<Rightarrow> pyval \<Rightarrow> pyval \<Rightarrow> state \<Rightarrow>
   (error + request) \<times> state" where
  "get_orders_by_query e max_results from_entered_datetime to_entered_datetime
       status statuses s =
     (let path = ''/v1/orders''
      in case make_order_query e max_results from_entered_datetime to_entered_datetime
                status statuses s of
           (Inl err, s') \<Rightarrow> (Inl err, s')
         | (Inr q, s') \<Rightarrow> get_request path (Some q) s')"

definition place_order :: "env \<Rightarrow> pyval \<Rightarrow> pyval \<Rightarrow> state \<Rightarrow> (error + request) \<times> state" where
  "place_order e account_id order_spec s =
     (let path = ''/v1/accounts/'' @ py_str e account_id @ ''/orders''
      in post_request path order_spec s)"

definition replace_order ::
  "env \<Rightarrow> pyval \<Rightarrow> pyval \<Rightarrow> pyval \<Rightarrow> state \<Rightarrow> (error + request) \<times> state" where
  "replace_order e account_id order_id order_spec s =
     (let path = ''/v1/accounts/'' @ py_str e account_id @ ''/orders/'' @ py_str e order_id
      in post_request path order_spec s)"

section \<open>Saved orders\<close>

definition create_saved_order ::
  "env \<Rightarrow> pyval \<Rightarrow> pyval \<Rightarrow> state \<Rightarrow> (error + request) \<times> state" where
  "create_saved_order e account_id order_spec s =
     (let path = ''/v1/accounts/'' @ py_str e account_id @ ''/savedorders''
      in post_request path order_spec s)"

definition delete_saved_order ::
  "env \<Rightarrow> pyval \<Rightarrow> pyval \<Rightarrow> state \<Rightarrow> (error + request) \<times> state" where
  "delete_saved_order e account_id order_id s =
     (let path = ''/v1/accounts/'' @ py_str e account_id @ ''/savedorders/'' @ py_str e order_id
      in delete_request path s)"

definition get_saved_order ::
  "env \<Rightarrow> pyval \<Rightarrow> pyval \<Rightarrow> state \<Rightarrow> (error + request) \<times> state" where
  "get_saved_order e account_id order_id s =
     (let path = ''/v1/accounts/'' @ py_str e account_id @ ''/savedorders/'' @ py_str e order_id
      in get_request path (Some []) s)"

definition get_saved_orders_by_path ::
  "env \<Rightarrow> pyval \<Rightarrow> state \<Rightarrow> (error + request) \<times> state" where
  "get_saved_orders_by_path e account_id s =
     (let path = ''/v1/accounts/'' @ py_str e account_id @ ''/savedorders''
      in get_request path (Some []) s)"

definition replace_saved_order ::
  "env \<Rightarrow> pyval \<Rightarrow> pyval \<Rightarrow> pyval \<Rightarrow> state \<Rightarrow> (error + request) \<times> state" where
  "replace_saved_order e account_id order_id order_spec s =
     (let path = ''/v1/accounts/'' @ py_str e account_id @ ''/savedorders/'' @ py_str e order_id
      in put_request path order_spec s)"

section \<open>Accounts\<close>

text \<open>The parameter \<open>fields\<close> is written \<open>fields'\<close>: the plain name is taken by the record package.\<close>

definition get_account :: "env \<Rightarrow> pyval \<Rightarrow> pyval \<Rightarrow> state \<Rightarrow> (error + request) \<times> state" where
  "get_account e account_id fields' s =
     (case (if truthy fields'
            then (case py_join '','' fields' of
                    Inl err \<Rightarrow> Inl err
                  | Inr joined \<Rightarrow> Inr (AList.update ''fields'' (PStr joined) []))
            else Inr []) of
        Inl err \<Rightarrow> (Inl err, s)
      | Inr params \<Rightarrow>
          (let path = ''/v1/accounts/'' @ py_str e account_id
           in get_request path (Some params) s))"

definition get_accounts :: "pyval \<Rightarrow> state \<Rightarrow> (error + request) \<times> state" where
  "get_accounts fields' s =
     (case (if truthy fields'
            then (case py_join '','' fields' of
                    Inl err \<Rightarrow> Inl err
                  | Inr joined \<Rightarrow> Inr (AList.update ''fields'' (PStr joined) []))
            else Inr []) of
        Inl err \<Rightarrow> (Inl err, s)
      | Inr params \<Rightarrow>
          (let path = ''/v1/accounts''
           in get_request path (Some params) s))"

section \<open>Instruments\<close>


definition cusip_not_str :: error where
  "cusip_not_str =
     ValueError (''CUSIPs must be passed as strings to preserve '' @ ''leading zeroes'')"

fun isinstance_str :: "pyval \<Rightarrow> bool" where
  "isinstance_str (PStr c) = True"
| "isinstance_str v = False"

definition get_instrument :: "env \<Rightarrow> pyval \<Rightarrow> state \<Rightarrow> (error + request) \<times> state" where
  "get_instrument e cusip s =
     (if \<not> isinstance_str cusip then (Inl cusip_not_str, s)
      else
        (let params = [(''apikey'', api_key (self s))];
             path = ''/v1/instruments/'' @ py_str e cusip
         in get_request path (Some params) s))"

section \<open>Market hours\<close>

definition print :: "(string \<times> pyval) list \<Rightarrow> state \<Rightarrow> state" where
  "print d s = s\<lparr>stdout := stdout s @ [d]\<rparr>"

definition get_hours_for_multiple_markets ::
  "pyval \<Rightarrow> pyval \<Rightarrow> state \<Rightarrow> (error + request) \<times> state" where
  "get_hours_for_multiple_markets markets date s =
     (case py_join '','' markets of
        Inl err \<Rightarrow> (Inl err, s)
      | Inr joined \<Rightarrow>
          (case format_datetime date of
             Inl err \<Rightarrow> (Inl err, s)
           | Inr d \<Rightarrow>
               (let params = [(''apikey'', api_key (self s)), (''markets'', PStr joined),
                              (''date'', PStr d)];
                    s = print params s;
                    path = ''/v1/marketdata/hours''
                in get_request path (Some params) s)))"


section \<open>Movers\<close>


section \<open>Option chains\<close>

text \<open>
  The keyword arguments of \<open>get_option_chain\<close> after \<open>symbol\<close>, and the values they
  take when the caller leaves them out.
\<close>

record option_chain_args =
  contract_type :: pyval
  strike_count :: pyval
  include_quotes :: pyval
  strategy :: pyval
  interval :: pyval
  strike :: pyval
  strike_range :: pyval
  strike_from_date :: pyval
  strike_to_date :: pyval
  volatility :: pyval
  underlying_price :: pyval
  interest_rate :: pyval
  days_to_expiration :: pyval
  exp_month :: pyval
  option_type :: pyval

definition option_chain_defaults :: option_chain_args where
  "option_chain_defaults =
     \<lparr>contract_type = PStr ''ALL'', strike_count = PNone, include_quotes = PBool False,
      strategy = PNone, interval = PNone, strike = PNone, strike_range = PStr ''ALL'',
      strike_from_date = PNone, strike_to_date = PNone, volatility = PNone,
      underlying_price = PNone, interest_rate = PNone, days_to_expiration = PNone,
      exp_month = PStr ''ALL'', option_type = PStr ''ALL''\<rparr>"

text \<open>\<open>if v is not None: params[k] = v\<close>\<close>

definition set_given ::
  "string \<Rightarrow> pyval \<Rightarrow> (string \<times> pyval) list \<Rightarrow> (string \<times> pyval) list" where
  "set_given k v d = (if v \<noteq> PNone then AList.update k v d else d)"

text \<open>\<open>if v is not None: params[k] = self.__format_datetime(v)\<close>\<close>

definition set_formatted ::
  "string \<Rightarrow> pyval \<Rightarrow> (string \<times> pyval) list \<Rightarrow> error + (string \<times> pyval) list" where
  "set_formatted k v d =
     (if v \<noteq> PNone
      then (case format_datetime v of
              Inl err \<Rightarrow> Inl err
            | Inr t \<Rightarrow> Inr (AList.update k (PStr t) d))
      else Inr d)"

text \<open>
  The last test of \<open>get_option_chain\<close> reads \<open>if days_to_expiration is None\<close>, unlike
  the nine before it; it is kept as written.
\<close>

definition get_option_chain ::
  "pyval \<Rightarrow> option_chain_args \<Rightarrow> state \<Rightarrow> (error + request) \<times> state" where
  "get_option_chain symbol a s =
     (let params = [(''apikey'', api_key (self s)), (''symbol'', symbol),
                    (''includeQuotes'', include_quotes a),
                    (''contractType'', contract_type a), (''range'', strike_range a),
                    (''expMonth'', exp_month a), (''optionType'', option_type a)];
          params = set_given ''strikeCount'' (strike_count a) params;
          params = set_given ''strategy'' (strategy a) params;
          params = set_given ''interval'' (interval a) params;
          params = set_given ''strike'' (strike a) params
      in case set_formatted ''fromDate'' (strike_from_date a) params of
           Inl err \<Rightarrow> (Inl err, s)
         | Inr params \<Rightarrow>
             (case set_formatted ''toDate'' (strike_to_date a) params of
                Inl err \<Rightarrow> (Inl err, s)
              | Inr params \<Rightarrow>
                  (let params = set_given ''volatility'' (volatility a) params;
                       params = set_given ''underlyingPrice'' (underlying_price a) params;
                       params = set_given ''interestRate'' (interest_rate a) params;
                       params = (if days_to_expiration a = PNone
                                 then AList.update ''daysToExpiration'' (days_to_expiration a)
                                        params
                                 else params);
                       path = ''/v1/marketdata/chains''
                   in get_request path (Some params) s)))"

section \<open>Price history\<close>





section \<open>Quotes\<close>


definition get_quotes :: "pyval \<Rightarrow> state \<Rightarrow> (error + request) \<times> state" where
  "get_quotes symbols s =
     (case py_join '','' symbols of
        Inl err \<Rightarrow> (Inl err, s)
      | Inr joined \<Rightarrow>
          (let params = [(''apikey'', api_key (self s)), (''symbol'', PStr joined)];
               path = ''/v1/marketdata/quotes''
           in get_request path (Some params) s))"

section \<open>Auxiliary notions for the properties\<close>




text \<open>The objects that have \<open>strftime\<close>: what a timestamp argument is meant to be.\<close>

fun is_timestamp :: "pyval \<Rightarrow> bool" where
  "is_timestamp (PDatetime dt) = True"
| "is_timestamp (PDate y m d) = True"
| "is_timestamp v = False"





text \<open>A runtime, a clock and a timestamp for the concrete instances below.\<close>

definition example_datetime :: datetime where
  "example_datetime =
     \<lparr>year = 2020, month = 3, day = 1, hour = 12, minute = 30, second = 15,
      microsecond = 0, tzinfo = Offset 19800000000\<rparr>"

definition example_clock :: "nat \<Rightarrow> datetime" where
  "example_clock n =
     \<lparr>year = 2020, month = 3, day = 1, hour = 12, minute = 30, second = n mod 60,
      microsecond = 0, tzinfo = Naive\<rparr>"

definition example_env :: env where
  "example_env =
     \<lparr>clock = example_clock,
      local_seconds = (\<lambda>dt. Inl (ValueError ''year 0 is out of range'')),
      str_of = (\<lambda>v. ''<object>'')\<rparr>"

section \<open>Properties\<close>

subsection \<open>Helper lemmas\<close>

lemmas request_defs = get_request_def post_request_def put_request_def delete_request_def
  dispatch_def base_url_def

lemma format_datetime_error: "format_datetime v = Inl err \<Longrightarrow> err = AttributeError"
  by (cases v) (simp_all add: Let_def)

lemma str_items_error: "str_items vs = Inl err \<Longrightarrow> err = TypeError"
  by (induction vs rule: str_items.induct) (auto split: sum.splits)

lemma py_join_error: "py_join sep v = Inl err \<Longrightarrow> err = TypeError"
  by (cases v) (auto split: sum.splits dest: str_items_error)

lemma str_items_strs: "str_items (map PStr ss) = Inr ss"
  by (induction ss) simp_all














lemma make_order_query_now:
  "make_order_query e mr f PNone st sts s =
   make_order_query e mr f (PDatetime ((clock e (clock_reads s))\<lparr>tzinfo := Naive\<rparr>)) st sts
     (s\<lparr>clock_reads := Suc (clock_reads s)\<rparr>)"
  by (simp add: make_order_query_def utcnow_def Let_def)

lemma make_order_query_given:
  "t \<noteq> PNone \<Longrightarrow>
   make_order_query e mr f t st sts s =
     (case format_datetime (if f = PNone then PDatetime datetime_min else f) of
        Inl err \<Rightarrow> (Inl err, s)
      | Inr a \<Rightarrow>
          (case format_datetime t of
             Inl err \<Rightarrow> (Inl err, s)
           | Inr b \<Rightarrow>
               (let p0 = [(''fromEnteredTime'', PStr a), (''toEnteredTime'', PStr b)];
                    p1 = (if truthy mr then AList.update ''maxResults'' mr p0 else p0);
                    p2 = (if truthy st then AList.update ''status'' st p1 else p1)
                in if st \<noteq> PNone \<and> sts \<noteq> PNone then (Inl status_conflict, s)
                   else if truthy sts
                   then (case py_join '','' sts of
                           Inl err \<Rightarrow> (Inl err, s)
                         | Inr joined \<Rightarrow> (Inr (AList.update ''status'' (PStr joined) p2), s))
                   else (Inr p2, s))))"
  unfolding make_order_query_def Let_def by (simp only: if_False prod.case)

lemma make_order_query_given_Inr:
  assumes "t \<noteq> PNone" and "fst (make_order_query e mr f t st sts s) = Inr q"
  shows "\<exists>a b. format_datetime (if f = PNone then PDatetime datetime_min else f) = Inr a \<and>
           format_datetime t = Inr b \<and> (st = PNone \<or> sts = PNone) \<and>
           map_of q ''fromEnteredTime'' = Some (PStr a) \<and>
           map_of q ''toEnteredTime'' = Some (PStr b) \<and>
           map_of q ''maxResults'' = (if truthy mr then Some mr else None) \<and>
           (truthy sts \<longrightarrow> (\<exists>j. py_join '','' sts = Inr j \<and> map_of q ''status'' = Some (PStr j))) \<and>
           (\<not> truthy sts \<longrightarrow> map_of q ''status'' = (if truthy st then Some st else None)) \<and>
           dom (map_of q) \<subseteq> {''fromEnteredTime'', ''toEnteredTime'', ''maxResults'', ''status''}"
proof -
  obtain a where a: "format_datetime (if f = PNone then PDatetime datetime_min else f) = Inr a"
    using assms by (cases "format_datetime (if f = PNone then PDatetime datetime_min else f)")
      (simp_all add: make_order_query_given)
  obtain b where b: "format_datetime t = Inr b"
    using assms a by (cases "format_datetime t") (simp_all add: make_order_query_given)
  have c: "st = PNone \<or> sts = PNone"
  proof (rule ccontr)
    assume "\<not> (st = PNone \<or> sts = PNone)"
    then have "make_order_query e mr f t st sts s = (Inl status_conflict, s)"
      using assms(1) a b by (simp add: make_order_query_given Let_def)
    with assms(2) show False by simp
  qed
  show ?thesis
  proof (cases "truthy sts")
    case True
    then obtain j where j: "py_join '','' sts = Inr j"
      using assms a b c by (cases "py_join '','' sts") (auto simp: make_order_query_given Let_def)
    with True assms a b c show ?thesis
      by (auto simp: make_order_query_given Let_def update_conv' dom_update split: if_splits)
  next
    case False
    with assms a b c show ?thesis
      by (auto simp: make_order_query_given Let_def update_conv' dom_update split: if_splits)
  qed
qed

lemma make_order_query_given_snd:
  assumes "t \<noteq> PNone"
  shows "snd (make_order_query e mr f t st sts s) = s"
proof (cases "format_datetime (if f = PNone then PDatetime datetime_min else f)")
  case (Inl x)
  with assms show ?thesis by (simp add: make_order_query_given)
next
  case a: (Inr a)
  show ?thesis
  proof (cases "format_datetime t")
    case (Inl x)
    with assms a show ?thesis by (simp add: make_order_query_given)
  next
    case b: (Inr b)
    show ?thesis
    proof (cases "py_join '','' sts")
      case (Inl x)
      with assms a b show ?thesis by (simp add: make_order_query_given Let_def)
    next
      case (Inr j)
      with assms a b show ?thesis by (simp add: make_order_query_given Let_def)
    qed
  qed
qed

lemma make_order_query_snd:
  "snd (make_order_query e mr f t st sts s) =
     (if t = PNone then s\<lparr>clock_reads := Suc (clock_reads s)\<rparr> else s)"
proof (cases "t = PNone")
  case True
  then show ?thesis by (simp add: make_order_query_now make_order_query_given_snd)
next
  case False
  then show ?thesis by (simp add: make_order_query_given_snd)
qed

lemma make_order_query_Inr:
  assumes "fst (make_order_query e mr f t st sts s) = Inr q"
  shows "\<exists>a b. format_datetime (if f = PNone then PDatetime datetime_min else f) = Inr a \<and>
           format_datetime
             (if t = PNone then PDatetime ((clock e (clock_reads s))\<lparr>tzinfo := Naive\<rparr>) else t) =
             Inr b \<and>
           (st = PNone \<or> sts = PNone) \<and>
           map_of q ''fromEnteredTime'' = Some (PStr a) \<and>
           map_of q ''toEnteredTime'' = Some (PStr b) \<and>
           map_of q ''maxResults'' = (if truthy mr then Some mr else None) \<and>
           (truthy sts \<longrightarrow> (\<exists>j. py_join '','' sts = Inr j \<and> map_of q ''status'' = Some (PStr j))) \<and>
           (\<not> truthy sts \<longrightarrow> map_of q ''status'' = (if truthy st then Some st else None)) \<and>
           dom (map_of q) \<subseteq> {''fromEnteredTime'', ''toEnteredTime'', ''maxResults'', ''status''}"
proof (cases "t = PNone")
  case True
  with assms have "fst (make_order_query e mr f
      (PDatetime ((clock e (clock_reads s))\<lparr>tzinfo := Naive\<rparr>)) st sts
      (s\<lparr>clock_reads := Suc (clock_reads s)\<rparr>)) = Inr q"
    by (simp add: make_order_query_now)
  from make_order_query_given_Inr[OF _ this] True show ?thesis by simp
next
  case False
  from make_order_query_given_Inr[OF False assms] False show ?thesis by simp
qed

lemma status_conflict_neq:
  "status_conflict \<noteq> AttributeError" "status_conflict \<noteq> TypeError"
  "status_conflict \<noteq> account_id_missing" "status_conflict \<noteq> cusip_not_str"
  by (simp_all add: status_conflict_def account_id_missing_def cusip_not_str_def)

lemma make_order_query_given_Inl:
  assumes "t \<noteq> PNone" and "fst (make_order_query e mr f t st sts s) = Inl err"
  shows "(err = AttributeError \<and>
            (format_datetime (if f = PNone then PDatetime datetime_min else f) = Inl AttributeError \<or>
             format_datetime t = Inl AttributeError)) \<or>
         (err = status_conflict \<and> st \<noteq> PNone \<and> sts \<noteq> PNone) \<or>
         (err = TypeError \<and> (st = PNone \<or> sts = PNone) \<and> truthy sts \<and>
            py_join '','' sts = Inl TypeError)"
proof (cases "format_datetime (if f = PNone then PDatetime datetime_min else f)")
  case (Inl x)
  with assms format_datetime_error[OF Inl] show ?thesis
    by (simp add: make_order_query_given)
next
  case a: (Inr a)
  show ?thesis
  proof (cases "format_datetime t")
    case (Inl x)
    with assms a format_datetime_error[OF Inl] show ?thesis
      by (simp add: make_order_query_given)
  next
    case b: (Inr b)
    show ?thesis
    proof (cases "st \<noteq> PNone \<and> sts \<noteq> PNone")
      case True
      with assms a b show ?thesis by (simp add: make_order_query_given Let_def)
    next
      case False
      show ?thesis
      proof (cases "py_join '','' sts")
        case (Inl x)
        with assms a b False py_join_error[OF Inl] show ?thesis
          by (auto simp: make_order_query_given Let_def split: if_splits)
      next
        case (Inr j)
        with assms a b False show ?thesis
          by (auto simp: make_order_query_given Let_def split: if_splits)
      qed
    qed
  qed
qed

lemma get_orders_by_query_fst:
  "fst (get_orders_by_query e mr f t st sts s) =
     (case fst (make_order_query e mr f t st sts s) of
        Inl err \<Rightarrow> Inl err
      | Inr q \<Rightarrow> Inr \<lparr>http_method = GET, url = base_url @ ''/v1/orders'',
                       query_params = Some q, json_body = None\<rparr>)"
proof -
  obtain r s' where "make_order_query e mr f t st sts s = (r, s')" by fastforce
  then show ?thesis
    by (cases r) (simp_all add: get_orders_by_query_def get_request_def dispatch_def Let_def)
qed

lemma get_orders_by_path_fst:
  "fst (get_orders_by_path e account_id mr f t st sts s) =
     (case fst (make_order_query e mr f t st sts s) of
        Inl err \<Rightarrow> Inl err
      | Inr q \<Rightarrow> Inr \<lparr>http_method = GET,
                       url = base_url @ ''/v1/accounts/'' @ py_str e account_id @ ''/orders'',
                       query_params = Some q, json_body = None\<rparr>)"
proof -
  obtain r s' where "make_order_query e mr f t st sts s = (r, s')" by fastforce
  then show ?thesis
    by (cases r) (simp_all add: get_orders_by_path_def get_request_def dispatch_def Let_def)
qed

lemma get_orders_by_query_snd:
  "snd (get_orders_by_query e mr f t st sts s) =
     (case fst (get_orders_by_query e mr f t st sts s) of
        Inl err \<Rightarrow> snd (make_order_query e mr f t st sts s)
      | Inr r \<Rightarrow> (snd (make_order_query e mr f t st sts s))
                   \<lparr>sent := sent (snd (make_order_query e mr f t st sts s)) @ [r]\<rparr>)"
proof -
  obtain r s' where "make_order_query e mr f t st sts s = (r, s')" by fastforce
  then show ?thesis
    by (cases r) (simp_all add: get_orders_by_query_def get_request_def dispatch_def Let_def)
qed

lemma get_orders_by_path_snd:
  "snd (get_orders_by_path e account_id mr f t st sts s) =
     (case fst (get_orders_by_path e account_id mr f t st sts s) of
        Inl err \<Rightarrow> snd (make_order_query e mr f t st sts s)
      | Inr r \<Rightarrow> (snd (make_order_query e mr f t st sts s))
                   \<lparr>sent := sent (snd (make_order_query e mr f t st sts s)) @ [r]\<rparr>)"
proof -
  obtain r s' where "make_order_query e mr f t st sts s = (r, s')" by fastforce
  then show ?thesis
    by (cases r) (simp_all add: get_orders_by_path_def get_request_def dispatch_def Let_def)
qed

lemma is_timestamp_format: "is_timestamp v \<Longrightarrow> \<exists>a. format_datetime v = Inr a"
  by (cases v) (simp_all add: Let_def)

lemma format_datetime_min: "format_datetime (PDatetime datetime_min) = Inr ''1-01-01T00:00:00+0000''"
  by (simp add: datetime_min_def Let_def strftime_iso_def strftime_date_def strftime_time_def
      strftime_z_def zpad_def digits.simps numeral_3_eq_3)

lemma make_order_query_Inl:
  assumes "fst (make_order_query e mr f t st sts s) = Inl err"
  shows "(err = AttributeError \<and> \<not> ((f = PNone \<or> is_timestamp f) \<and> (t = PNone \<or> is_timestamp t))) \<or>
         (err = status_conflict \<and> st \<noteq> PNone \<and> sts \<noteq> PNone) \<or>
         (err = TypeError \<and> (st = PNone \<or> sts = PNone) \<and> truthy sts \<and>
            py_join '','' sts = Inl TypeError)"
proof -
  define t' where
    "t' = (if t = PNone then PDatetime ((clock e (clock_reads s))\<lparr>tzinfo := Naive\<rparr>) else t)"
  define s' where "s' = (if t = PNone then s\<lparr>clock_reads := Suc (clock_reads s)\<rparr> else s)"
  have t': "t' \<noteq> PNone" by (simp add: t'_def)
  have "make_order_query e mr f t st sts s = make_order_query e mr f t' st sts s'"
    by (simp add: t'_def s'_def make_order_query_now)
  with assms have "fst (make_order_query e mr f t' st sts s') = Inl err" by simp
  from make_order_query_given_Inl[OF t' this]
  consider "err = AttributeError"
      "format_datetime (if f = PNone then PDatetime datetime_min else f) = Inl AttributeError \<or>
       format_datetime t' = Inl AttributeError"
    | "err = status_conflict \<and> st \<noteq> PNone \<and> sts \<noteq> PNone"
    | "err = TypeError \<and> (st = PNone \<or> sts = PNone) \<and> truthy sts \<and>
       py_join '','' sts = Inl TypeError"
    by blast
  then show ?thesis
  proof cases
    case 1
    have "\<not> ((f = PNone \<or> is_timestamp f) \<and> (t = PNone \<or> is_timestamp t))"
    proof
      assume a: "(f = PNone \<or> is_timestamp f) \<and> (t = PNone \<or> is_timestamp t)"
      then have "is_timestamp (if f = PNone then PDatetime datetime_min else f)" by auto
      then have "\<exists>a. format_datetime (if f = PNone then PDatetime datetime_min else f) = Inr a"
        by (rule is_timestamp_format)
      moreover from a have "is_timestamp t'" by (auto simp: t'_def)
      then have "\<exists>b. format_datetime t' = Inr b" by (rule is_timestamp_format)
      ultimately show False using 1(2) by auto
    qed
    with 1(1) show ?thesis by simp
  qed simp_all
qed

lemma order_query_conflict:
  assumes "st \<noteq> PNone \<and> sts \<noteq> PNone"
  shows "\<exists>err. fst (make_order_query e mr f t st sts s) = Inl err \<and>
           ((f = PNone \<or> is_timestamp f) \<and> (t = PNone \<or> is_timestamp t) \<longrightarrow>
              err = status_conflict)"
proof (cases "fst (make_order_query e mr f t st sts s)")
  case (Inl err)
  from make_order_query_Inl[OF Inl] assms Inl show ?thesis by auto
next
  case (Inr q)
  from make_order_query_Inr[OF Inr] assms show ?thesis by blast
qed

lemma order_query_no_conflict:
  assumes "st = PNone \<or> sts = PNone"
  shows "fst (make_order_query e mr f t st sts s) \<noteq> Inl status_conflict"
proof
  assume "fst (make_order_query e mr f t st sts s) = Inl status_conflict"
  from make_order_query_Inl[OF this] assms show False
    by (auto simp: status_conflict_neq)
qed

lemma make_order_query_sent: "sent (snd (make_order_query e mr f t st sts s)) = sent s"
  by (simp add: make_order_query_snd)

lemma account_id_missing_neq:
  "account_id_missing \<noteq> AttributeError" "account_id_missing \<noteq> TypeError"
  "account_id_missing \<noteq> status_conflict"
  by (simp_all add: account_id_missing_def status_conflict_def)

lemma make_order_query_given_fst:
  assumes "t \<noteq> PNone"
  shows "fst (make_order_query e mr f t st sts s) = fst (make_order_query e mr f t st sts s2)"
proof (cases "format_datetime (if f = PNone then PDatetime datetime_min else f)")
  case (Inl x)
  with assms show ?thesis by (simp add: make_order_query_given)
next
  case a: (Inr a)
  show ?thesis
  proof (cases "format_datetime t")
    case (Inl x)
    with assms a show ?thesis by (simp add: make_order_query_given)
  next
    case b: (Inr b)
    show ?thesis
    proof (cases "py_join '','' sts")
      case (Inl x)
      with assms a b show ?thesis by (simp add: make_order_query_given Let_def)
    next
      case (Inr j)
      with assms a b show ?thesis by (simp add: make_order_query_given Let_def)
    qed
  qed
qed

lemma make_order_query_self:
  "fst (make_order_query e mr f t st sts (s\<lparr>self := c\<rparr>)) =
   fst (make_order_query e mr f t st sts s)"
proof (cases "t = PNone")
  case True
  have "PDatetime ((clock e (clock_reads s))\<lparr>tzinfo := Naive\<rparr>) \<noteq> PNone" by simp
  from make_order_query_given_fst[OF this] True show ?thesis
    by (simp add: make_order_query_now)
next
  case False
  from make_order_query_given_fst[OF False] show ?thesis .
qed

lemma get_orders_by_path_not_missing:
  "fst (get_orders_by_path e a mr f t st sts s) \<noteq> Inl account_id_missing"
proof
  assume "fst (get_orders_by_path e a mr f t st sts s) = Inl account_id_missing"
  then have "fst (make_order_query e mr f t st sts s) = Inl account_id_missing"
    by (auto simp: get_orders_by_path_fst split: sum.splits)
  from make_order_query_Inl[OF this] show False
    by (auto simp: account_id_missing_neq)
qed

lemma get_account_not_missing:
  "fst (get_account e a fs s) \<noteq> Inl account_id_missing"
  by (auto simp: get_account_def Let_def request_defs account_id_missing_neq
      split: sum.splits dest: py_join_error)

lemma get_account_self:
  "fst (get_account e a fs (s\<lparr>self := c\<rparr>)) = fst (get_account e a fs s)"
  by (auto simp: get_account_def Let_def request_defs split: sum.splits)


lemma get_orders_by_path_self:
  "fst (get_orders_by_path e a mr f t st sts (s\<lparr>self := c\<rparr>)) =
   fst (get_orders_by_path e a mr f t st sts s)"
  by (simp add: get_orders_by_path_fst make_order_query_self)

lemma py_join_strs: "py_join sep (PList (map PStr ss)) = Inr (join sep ss)"
  by (simp add: str_items_strs)

lemma make_order_query_defaults_ok:
  assumes "st = PNone \<or> sts = PNone"
    and "sts = PNone \<or> (\<exists>ss. sts = PList (map PStr ss))"
    and "f = PNone \<or> is_timestamp f" and "t = PNone \<or> is_timestamp t"
  shows "\<exists>q. fst (make_order_query e mr f t st sts s) = Inr q"
proof (cases "fst (make_order_query e mr f t st sts s)")
  case (Inl err)
  from make_order_query_Inl[OF Inl] assms show ?thesis
    by (auto simp: str_items_strs)
next
  case (Inr q)
  then show ?thesis by blast
qed


lemma example_clock_format:
  "format_datetime (PDatetime ((clock example_env n)\<lparr>tzinfo := Naive\<rparr>)) =
     Inr (''2020-03-01T12:30:'' @ zpad 2 (n mod 60) @ ''+0000'')"
proof -
  have "digits 2020 = ''2020''" "zpad 2 3 = ''03''" "zpad 2 1 = ''01''" "zpad 2 12 = ''12''"
    "zpad 2 30 = ''30''"
    by (simp_all add: zpad_def digits.simps)
  then show ?thesis
    by (simp add: example_env_def example_clock_def Let_def strftime_iso_def strftime_date_def
        strftime_time_def strftime_z_def)
qed

lemma example_order_query:
  "get_orders_by_query example_env PNone PNone PNone PNone PNone s =
     (Inr \<lparr>http_method = GET, url = ''https://api.tdameritrade.com/v1/orders'',
           query_params =
             Some [(''fromEnteredTime'', PStr ''1-01-01T00:00:00+0000''),
                   (''toEnteredTime'',
                    PStr (''2020-03-01T12:30:'' @ zpad 2 (clock_reads s mod 60) @ ''+0000''))],
           json_body = None\<rparr>,
      s\<lparr>clock_reads := Suc (clock_reads s),
        sent := sent s @
          [\<lparr>http_method = GET, url = ''https://api.tdameritrade.com/v1/orders'',
            query_params =
              Some [(''fromEnteredTime'', PStr ''1-01-01T00:00:00+0000''),
                    (''toEnteredTime'',
                     PStr (''2020-03-01T12:30:'' @ zpad 2 (clock_reads s mod 60) @ ''+0000''))],
            json_body = None\<rparr>]\<rparr>)"
  by (simp add: get_orders_by_query_def make_order_query_now make_order_query_given
      format_datetime_min example_clock_format Let_def request_defs
      del: format_datetime.simps)

lemma order_query_statuses_joined:
  assumes "ss \<noteq> []" and "f = PNone \<or> is_timestamp f" and "t = PNone \<or> is_timestamp t"
  shows "\<exists>q. fst (make_order_query e mr f t PNone (PList (map PStr ss)) s) = Inr q \<and>
           map_of q ''status'' = Some (PStr (join '','' ss))"
proof -
  have "PNone = PNone \<or> PList (map PStr ss) = PNone" by simp
  moreover have "PList (map PStr ss) = PNone \<or> (\<exists>ss'. PList (map PStr ss) = PList (map PStr ss'))"
    by blast
  ultimately obtain q
    where q: "fst (make_order_query e mr f t PNone (PList (map PStr ss)) s) = Inr q"
    using make_order_query_defaults_ok[OF _ _ assms(2,3)] by blast
  have "truthy (PList (map PStr ss))" using assms(1) by simp
  with make_order_query_Inr[OF q]
  obtain j where "py_join '','' (PList (map PStr ss)) = Inr j" "map_of q ''status'' = Some (PStr j)"
    by blast
  then have "map_of q ''status'' = Some (PStr (join '','' ss))"
    by (simp add: str_items_strs)
  with q show ?thesis by blast
qed










lemma order_query_defaults_returns:
  assumes "st = PNone \<or> sts = PNone"
    and "truthy sts \<longrightarrow> (\<exists>j. py_join '','' sts = Inr j)"
  shows "\<exists>q. fst (make_order_query e mr PNone PNone st sts s) = Inr q"
proof (cases "fst (make_order_query e mr PNone PNone st sts s)")
  case (Inl err)
  from make_order_query_Inl[OF Inl] assms show ?thesis by auto
next
  case (Inr q)
  then show ?thesis by blast
qed

lemma order_query_raises:
  assumes "\<not> ((st = PNone \<or> sts = PNone) \<and> (truthy sts \<longrightarrow> (\<exists>j. py_join '','' sts = Inr j)))"
  shows "\<exists>err. fst (make_order_query e mr f t st sts s) = Inl err"
proof (cases "fst (make_order_query e mr f t st sts s)")
  case (Inl err)
  then show ?thesis by blast
next
  case (Inr q)
  from make_order_query_Inr[OF Inr] assms show ?thesis by blast
qed

lemma join_concat:
  "join sep xs = (case xs of [] \<Rightarrow> [] | x # ys \<Rightarrow> x @ concat (map ((@) sep) ys))"
  by (induction sep xs rule: join.induct) simp_all






























subsection \<open>Optional parameters\<close>

text \<open>
  C1. An optional parameter the caller leaves unset must not appear in the query, and no
  key may carry a null value. \<open>get_option_chain\<close> breaks this for \<open>days_to_expiration\<close>:
  its test is \<open>is None\<close> where the nine tests before it are \<open>is not None\<close>, so the call
  with every optional argument left out sends \<open>daysToExpiration\<close> with the value
  \<open>None\<close>.
\<close>

theorem get_option_chain_defaults_sets_days_to_expiration:
  "fst (get_option_chain (PStr ''AAPL'') option_chain_defaults (init (PStr ''KEY'') PNone)) =
     Inr \<lparr>http_method = GET, url = ''https://api.tdameritrade.com/v1/marketdata/chains'',
          query_params = Some [(''apikey'', PStr ''KEY''), (''symbol'', PStr ''AAPL''),
            (''includeQuotes'', PBool False), (''contractType'', PStr ''ALL''),
            (''range'', PStr ''ALL''), (''expMonth'', PStr ''ALL''),
            (''optionType'', PStr ''ALL''), (''daysToExpiration'', PNone)],
          json_body = None\<rparr>"
  by (simp add: get_option_chain_def option_chain_defaults_def init_def set_formatted_def
      set_given_def request_defs Let_def)

subsection \<open>The CUSIP of \<open>get_instrument\<close>\<close>

text \<open>
  C6. A CUSIP that is not a string makes \<open>get_instrument\<close> raise the \<open>ValueError\<close>
  about leading zeroes, and nothing reaches the session; a string \<open>c\<close> gives a GET of
  \<open>/v1/instruments/\<close> followed by \<open>c\<close> as it stands, with the query \<open>{apikey: key}\<close>.
\<close>

theorem get_instrument_cusip:
  "((\<forall>c. cusip \<noteq> PStr c) \<longrightarrow>
      get_instrument e cusip s =
        (Inl (ValueError ''CUSIPs must be passed as strings to preserve leading zeroes''), s)) \<and>
   fst (get_instrument e (PStr c) s) =
     Inr \<lparr>http_method = GET, url = base_url @ ''/v1/instruments/'' @ c,
          query_params = Some [(''apikey'', api_key (self s))], json_body = None\<rparr> \<and>
   sent (snd (get_instrument e (PStr c) s)) =
     sent s @ [projr (fst (get_instrument e (PStr c) s))]"
proof -
  have "get_instrument e cusip s = (Inl cusip_not_str, s)" if "\<forall>c. cusip \<noteq> PStr c"
    using that by (cases cusip) (simp_all add: get_instrument_def)
  then show ?thesis
    by (simp add: get_instrument_def cusip_not_str_def py_str_def request_defs Let_def)
qed

theorem get_instrument_cusip_witness:
  "(\<forall>c. PInt 123 \<noteq> PStr c) \<and>
   get_instrument example_env (PInt 123) (init (PStr ''KEY'') PNone) =
     (Inl (ValueError ''CUSIPs must be passed as strings to preserve leading zeroes''),
      init (PStr ''KEY'') PNone) \<and>
   fst (get_instrument example_env (PStr ''00123'') (init (PStr ''KEY'') PNone)) =
     Inr \<lparr>http_method = GET, url = ''https://api.tdameritrade.com/v1/instruments/00123'',
          query_params = Some [(''apikey'', PStr ''KEY'')], json_body = None\<rparr>"
  using get_instrument_cusip [of "PInt 123" example_env "init (PStr ''KEY'') PNone" "''00123''"]
  by (simp add: init_def base_url_def)

subsection \<open>\<open>get_order\<close>\<close>

text \<open>
  C9. \<open>get_order\<close> calls \<open>__get_request\<close> without the query argument that helper
  requires: for every order and account identifier the call raises and the session
  receives nothing. The lookups beside it, \<open>cancel_order\<close> and \<open>get_saved_order\<close>,
  hand their request to the session.
\<close>

theorem get_order_never_dispatches:
  "get_order e order_id account_id s = (Inl TypeError, s) \<and>
   fst (cancel_order e order_id account_id s) =
     Inr \<lparr>http_method = DELETE,
          url = base_url @ ''/v1/accounts/'' @ py_str e account_id @ ''/orders/'' @
                py_str e order_id,
          query_params = None, json_body = None\<rparr> \<and>
   sent (snd (cancel_order e order_id account_id s)) =
     sent s @ [projr (fst (cancel_order e order_id account_id s))] \<and>
   fst (get_saved_order e account_id order_id s) =
     Inr \<lparr>http_method = GET,
          url = base_url @ ''/v1/accounts/'' @ py_str e account_id @ ''/savedorders/'' @
                py_str e order_id,
          query_params = Some [], json_body = None\<rparr> \<and>
   sent (snd (get_saved_order e account_id order_id s)) =
     sent s @ [projr (fst (get_saved_order e account_id order_id s))]"
  by (simp add: get_order_def cancel_order_def get_saved_order_def get_request_def
      delete_request_def dispatch_def Let_def)

subsection \<open>The two status filters of an order query\<close>

text \<open>
  C3. An order query (\<open>get_orders_by_path\<close>, \<open>get_orders_by_query\<close>) given both
  \<open>status\<close> and \<open>statuses\<close> raises and sends nothing; the error is the \<open>ValueError\<close>
  \<open>at most one of status or statuses may be set\<close> whenever the time bounds are
  timestamps or left out (another object fails earlier, in \<open>strftime\<close>). Given at most
  one of the two, that error is not raised.
\<close>

theorem order_query_status_filters_exclusive:
  "(status \<noteq> PNone \<and> statuses \<noteq> PNone \<longrightarrow>
      (\<exists>err. fst (get_orders_by_path e account_id max_results f t status statuses s) = Inl err \<and>
         ((f = PNone \<or> is_timestamp f) \<and> (t = PNone \<or> is_timestamp t) \<longrightarrow>
            err = status_conflict)) \<and>
      sent (snd (get_orders_by_path e account_id max_results f t status statuses s)) = sent s \<and>
      (\<exists>err. fst (get_orders_by_query e max_results f t status statuses s) = Inl err \<and>
         ((f = PNone \<or> is_timestamp f) \<and> (t = PNone \<or> is_timestamp t) \<longrightarrow>
            err = status_conflict)) \<and>
      sent (snd (get_orders_by_query e max_results f t status statuses s)) = sent s) \<and>
   (status = PNone \<or> statuses = PNone \<longrightarrow>
      fst (get_orders_by_path e account_id max_results f t status statuses s) \<noteq>
        Inl status_conflict \<and>
      fst (get_orders_by_query e max_results f t status statuses s) \<noteq> Inl status_conflict)"
proof (intro conjI impI)
  assume both: "status \<noteq> PNone \<and> statuses \<noteq> PNone"
  from order_query_conflict[OF both, of e max_results f t s]
  obtain err where err: "fst (make_order_query e max_results f t status statuses s) = Inl err"
    "(f = PNone \<or> is_timestamp f) \<and> (t = PNone \<or> is_timestamp t) \<longrightarrow> err = status_conflict"
    by blast
  from err show "\<exists>err. fst (get_orders_by_path e account_id max_results f t status statuses s) =
      Inl err \<and> ((f = PNone \<or> is_timestamp f) \<and> (t = PNone \<or> is_timestamp t) \<longrightarrow>
      err = status_conflict)"
    by (simp add: get_orders_by_path_fst)
  from err show "\<exists>err. fst (get_orders_by_query e max_results f t status statuses s) =
      Inl err \<and> ((f = PNone \<or> is_timestamp f) \<and> (t = PNone \<or> is_timestamp t) \<longrightarrow>
      err = status_conflict)"
    by (simp add: get_orders_by_query_fst)
  from err(1) show "sent (snd (get_orders_by_path e account_id max_results f t status statuses s)) =
      sent s"
    by (simp add: get_orders_by_path_snd get_orders_by_path_fst make_order_query_sent)
  from err(1) show "sent (snd (get_orders_by_query e max_results f t status statuses s)) = sent s"
    by (simp add: get_orders_by_query_snd get_orders_by_query_fst make_order_query_sent)
next
  assume one: "status = PNone \<or> statuses = PNone"
  from order_query_no_conflict[OF one, of e max_results f t s]
  show "fst (get_orders_by_path e account_id max_results f t status statuses s) \<noteq>
      Inl status_conflict"
    by (auto simp: get_orders_by_path_fst split: sum.splits)
  from order_query_no_conflict[OF one, of e max_results f t s]
  show "fst (get_orders_by_query e max_results f t status statuses s) \<noteq> Inl status_conflict"
    by (auto simp: get_orders_by_query_fst split: sum.splits)
qed

theorem order_query_status_filters_exclusive_witness:
  "fst (get_orders_by_query example_env PNone PNone PNone (PStr ''FILLED'')
          (PList [PStr ''FILLED'', PStr ''QUEUED'']) (init (PStr ''KEY'') PNone)) =
     Inl (ValueError ''at most one of status or statuses may be set'') \<and>
   sent (snd (get_orders_by_query example_env PNone PNone PNone (PStr ''FILLED'')
          (PList [PStr ''FILLED'', PStr ''QUEUED'']) (init (PStr ''KEY'') PNone))) = [] \<and>
   fst (get_orders_by_query example_env PNone PNone PNone (PStr ''FILLED'') PNone
          (init (PStr ''KEY'') PNone)) \<noteq>
     Inl (ValueError ''at most one of status or statuses may be set'')"
  using order_query_status_filters_exclusive [of "PStr ''FILLED''"
      "PList [PStr ''FILLED'', PStr ''QUEUED'']" example_env PNone PNone PNone PNone
      "init (PStr ''KEY'') PNone"]
    order_query_status_filters_exclusive [of "PStr ''FILLED''" PNone example_env PNone PNone
      PNone PNone "init (PStr ''KEY'') PNone"]
  by (auto simp: status_conflict_def init_def)

subsection \<open>Account-scoped operations\<close>

text \<open>
  C2, as the code has it. The client's own account identifier is read by the private
  accessor \<open>__account_id\<close> alone, which raises the \<open>ValueError\<close>
  \<open>client initialized without account ID\<close> when it is \<open>None\<close>; no method calls it.
  Every account-scoped operation takes the account identifier as an argument: it never
  raises that error, and its result is the same whatever the client's fields are. The
  call of \<open>cancel_order\<close> on a client built without an account identifier, shown after
  the theorem, sends its request.
\<close>

theorem account_scoped_operations_take_account_argument:
  "(self_account_id (self s) = PNone \<longrightarrow> private_account_id s = Inl account_id_missing) \<and>
   fst (cancel_order e order_id account_id s) \<noteq> Inl account_id_missing \<and>
   fst (cancel_order e order_id account_id (s\<lparr>self := c\<rparr>)) = fst (cancel_order e order_id account_id s) \<and>
   fst (get_order e order_id account_id s) \<noteq> Inl account_id_missing \<and>
   fst (get_order e order_id account_id (s\<lparr>self := c\<rparr>)) = fst (get_order e order_id account_id s) \<and>
   fst (get_orders_by_path e account_id max_results f t status statuses s) \<noteq> Inl account_id_missing \<and>
   fst (get_orders_by_path e account_id max_results f t status statuses (s\<lparr>self := c\<rparr>)) = fst (get_orders_by_path e account_id max_results f t status statuses s) \<and>
   fst (place_order e account_id order_spec s) \<noteq> Inl account_id_missing \<and>
   fst (place_order e account_id order_spec (s\<lparr>self := c\<rparr>)) = fst (place_order e account_id order_spec s) \<and>
   fst (replace_order e account_id order_id order_spec s) \<noteq> Inl account_id_missing \<and>
   fst (replace_order e account_id order_id order_spec (s\<lparr>self := c\<rparr>)) = fst (replace_order e account_id order_id order_spec s) \<and>
   fst (create_saved_order e account_id order_spec s) \<noteq> Inl account_id_missing \<and>
   fst (create_saved_order e account_id order_spec (s\<lparr>self := c\<rparr>)) = fst (create_saved_order e account_id order_spec s) \<and>
   fst (delete_saved_order e account_id order_id s) \<noteq> Inl account_id_missing \<and>
   fst (delete_saved_order e account_id order_id (s\<lparr>self := c\<rparr>)) = fst (delete_saved_order e account_id order_id s) \<and>
   fst (get_saved_order e account_id order_id s) \<noteq> Inl account_id_missing \<and>
   fst (get_saved_order e account_id order_id (s\<lparr>self := c\<rparr>)) = fst (get_saved_order e account_id order_id s) \<and>
   fst (get_saved_orders_by_path e account_id s) \<noteq> Inl account_id_missing \<and>
   fst (get_saved_orders_by_path e account_id (s\<lparr>self := c\<rparr>)) = fst (get_saved_orders_by_path e account_id s) \<and>
   fst (replace_saved_order e account_id order_id order_spec s) \<noteq> Inl account_id_missing \<and>
   fst (replace_saved_order e account_id order_id order_spec (s\<lparr>self := c\<rparr>)) = fst (replace_saved_order e account_id order_id order_spec s) \<and>
   fst (get_account e account_id fields' s) \<noteq> Inl account_id_missing \<and>
   fst (get_account e account_id fields' (s\<lparr>self := c\<rparr>)) = fst (get_account e account_id fields' s)"
proof -
  have simple:
    "fst (cancel_order e order_id account_id s) \<noteq> Inl account_id_missing"
    "fst (cancel_order e order_id account_id (s\<lparr>self := c\<rparr>)) = fst (cancel_order e order_id account_id s)"
    "fst (get_order e order_id account_id s) \<noteq> Inl account_id_missing"
    "fst (get_order e order_id account_id (s\<lparr>self := c\<rparr>)) = fst (get_order e order_id account_id s)"
    "fst (place_order e account_id order_spec s) \<noteq> Inl account_id_missing"
    "fst (place_order e account_id order_spec (s\<lparr>self := c\<rparr>)) = fst (place_order e account_id order_spec s)"
    "fst (replace_order e account_id order_id order_spec s) \<noteq> Inl account_id_missing"
    "fst (replace_order e account_id order_id order_spec (s\<lparr>self := c\<rparr>)) = fst (replace_order e account_id order_id order_spec s)"
    "fst (create_saved_order e account_id order_spec s) \<noteq> Inl account_id_missing"
    "fst (create_saved_order e account_id order_spec (s\<lparr>self := c\<rparr>)) = fst (create_saved_order e account_id order_spec s)"
    "fst (delete_saved_order e account_id order_id s) \<noteq> Inl account_id_missing"
    "fst (delete_saved_order e account_id order_id (s\<lparr>self := c\<rparr>)) = fst (delete_saved_order e account_id order_id s)"
    "fst (get_saved_order e account_id order_id s) \<noteq> Inl account_id_missing"
    "fst (get_saved_order e account_id order_id (s\<lparr>self := c\<rparr>)) = fst (get_saved_order e account_id order_id s)"
    "fst (get_saved_orders_by_path e account_id s) \<noteq> Inl account_id_missing"
    "fst (get_saved_orders_by_path e account_id (s\<lparr>self := c\<rparr>)) = fst (get_saved_orders_by_path e account_id s)"
    "fst (replace_saved_order e account_id order_id order_spec s) \<noteq> Inl account_id_missing"
    "fst (replace_saved_order e account_id order_id order_spec (s\<lparr>self := c\<rparr>)) = fst (replace_saved_order e account_id order_id order_spec s)"
    by (simp_all add: cancel_order_def get_order_def place_order_def replace_order_def
        create_saved_order_def delete_saved_order_def get_saved_order_def
        get_saved_orders_by_path_def replace_saved_order_def request_defs Let_def
        account_id_missing_def)
  have helper: "self_account_id (self s) = PNone \<longrightarrow>
      private_account_id s = Inl account_id_missing"
    by (simp add: private_account_id_def)
  show ?thesis
    by (intro conjI; rule helper simple get_orders_by_path_not_missing
        get_orders_by_path_self get_account_not_missing get_account_self)
qed

theorem cancel_order_without_client_account:
  "self_account_id (self (init (PStr ''KEY'') PNone)) = PNone \<and>
   fst (cancel_order example_env (PStr ''123'') (PStr ''456'') (init (PStr ''KEY'') PNone)) =
     Inr \<lparr>http_method = DELETE,
          url = ''https://api.tdameritrade.com/v1/accounts/456/orders/123'',
          query_params = None, json_body = None\<rparr> \<and>
   sent (snd (cancel_order example_env (PStr ''123'') (PStr ''456'')
               (init (PStr ''KEY'') PNone))) =
     [\<lparr>http_method = DELETE,
       url = ''https://api.tdameritrade.com/v1/accounts/456/orders/123'',
       query_params = None, json_body = None\<rparr>]"
  by (simp add: cancel_order_def init_def py_str_def request_defs Let_def)

theorem account_scoped_operations_take_account_argument_witness:
  "self_account_id (self (init (PStr ''KEY'') PNone)) = PNone \<and>
   private_account_id (init (PStr ''KEY'') PNone) =
     Inl (ValueError ''client initialized without account ID'') \<and>
   fst (place_order example_env (PStr ''456'') (PDict []) (init (PStr ''KEY'') PNone)) \<noteq>
     Inl (ValueError ''client initialized without account ID'') \<and>
   fst (place_order example_env (PStr ''456'') (PDict []) (init (PStr ''KEY'') (PStr ''789''))) =
   fst (place_order example_env (PStr ''456'') (PDict []) (init (PStr ''KEY'') PNone))"
  using account_scoped_operations_take_account_argument [of "init (PStr ''KEY'') PNone"
      example_env "PStr ''123''" "PStr ''456''" "\<lparr>api_key = PStr ''KEY'', self_account_id = PStr ''789''\<rparr>"
      PNone PNone PNone PNone PNone "PDict []" PNone]
  by (simp add: init_def account_id_missing_def)

subsection \<open>The ISO form of a timestamp\<close>




subsection \<open>Default time bounds of an order query\<close>

text \<open>
  C5. An order query called with no time bounds sends \<open>fromEnteredTime\<close> as the
  formatted \<open>datetime.min\<close> and \<open>toEnteredTime\<close> as the formatted instant the clock
  shows at this call: the call reads the clock once, so the next call sees the next
  reading. This holds for every such call that returns, which are the calls with at
  most one status filter whose \<open>statuses\<close>, when it counts as given, can be joined; the
  other calls raise.
\<close>

theorem order_query_default_time_bounds:
  "((status = PNone \<or> statuses = PNone) \<and>
    (truthy statuses \<longrightarrow> (\<exists>j. py_join '','' statuses = Inr j)) \<longrightarrow>
      (\<exists>q a b.
         fst (get_orders_by_query e max_results PNone PNone status statuses s) =
           Inr \<lparr>http_method = GET, url = base_url @ ''/v1/orders'', query_params = Some q,
                json_body = None\<rparr> \<and>
         fst (get_orders_by_path e account_id max_results PNone PNone status statuses s) =
           Inr \<lparr>http_method = GET,
                url = base_url @ ''/v1/accounts/'' @ py_str e account_id @ ''/orders'',
                query_params = Some q, json_body = None\<rparr> \<and>
         format_datetime (PDatetime datetime_min) = Inr a \<and>
         a = ''1-01-01T00:00:00+0000'' \<and>
         map_of q ''fromEnteredTime'' = Some (PStr a) \<and>
         format_datetime (PDatetime ((clock e (clock_reads s))\<lparr>tzinfo := Naive\<rparr>)) = Inr b \<and>
         map_of q ''toEnteredTime'' = Some (PStr b) \<and>
         clock_reads (snd (get_orders_by_query e max_results PNone PNone status statuses s)) =
           Suc (clock_reads s) \<and>
         clock_reads (snd (get_orders_by_path e account_id max_results PNone PNone status
                             statuses s)) = Suc (clock_reads s))) \<and>
   (\<not> ((status = PNone \<or> statuses = PNone) \<and>
       (truthy statuses \<longrightarrow> (\<exists>j. py_join '','' statuses = Inr j))) \<longrightarrow>
      (\<exists>err. fst (get_orders_by_query e max_results PNone PNone status statuses s) = Inl err) \<and>
      (\<exists>err. fst (get_orders_by_path e account_id max_results PNone PNone status statuses s) =
         Inl err))"
proof (intro conjI impI)
  assume ok: "(status = PNone \<or> statuses = PNone) \<and>
    (truthy statuses \<longrightarrow> (\<exists>j. py_join '','' statuses = Inr j))"
  then obtain q
    where q: "fst (make_order_query e max_results PNone PNone status statuses s) = Inr q"
    using order_query_defaults_returns[of status statuses e max_results s] by blast
  from make_order_query_Inr[OF q]
  obtain a b where ab: "format_datetime (PDatetime datetime_min) = Inr a"
    "format_datetime (PDatetime ((clock e (clock_reads s))\<lparr>tzinfo := Naive\<rparr>)) = Inr b"
    "map_of q ''fromEnteredTime'' = Some (PStr a)" "map_of q ''toEnteredTime'' = Some (PStr b)"
    by auto
  from ab(1) have a: "a = ''1-01-01T00:00:00+0000''"
    by (simp only: format_datetime_min sum.inject)
  have c1: "clock_reads (snd (get_orders_by_query e max_results PNone PNone status statuses s)) =
      Suc (clock_reads s)"
    using q by (simp add: get_orders_by_query_snd get_orders_by_query_fst make_order_query_snd)
  have c2: "clock_reads (snd (get_orders_by_path e account_id max_results PNone PNone status
      statuses s)) = Suc (clock_reads s)"
    using q by (simp add: get_orders_by_path_snd get_orders_by_path_fst make_order_query_snd)
  from q ab a c1 c2 show "\<exists>q a b.
         fst (get_orders_by_query e max_results PNone PNone status statuses s) =
           Inr \<lparr>http_method = GET, url = base_url @ ''/v1/orders'', query_params = Some q,
                json_body = None\<rparr> \<and>
         fst (get_orders_by_path e account_id max_results PNone PNone status statuses s) =
           Inr \<lparr>http_method = GET,
                url = base_url @ ''/v1/accounts/'' @ py_str e account_id @ ''/orders'',
                query_params = Some q, json_body = None\<rparr> \<and>
         format_datetime (PDatetime datetime_min) = Inr a \<and>
         a = ''1-01-01T00:00:00+0000'' \<and>
         map_of q ''fromEnteredTime'' = Some (PStr a) \<and>
         format_datetime (PDatetime ((clock e (clock_reads s))\<lparr>tzinfo := Naive\<rparr>)) = Inr b \<and>
         map_of q ''toEnteredTime'' = Some (PStr b) \<and>
         clock_reads (snd (get_orders_by_query e max_results PNone PNone status statuses s)) =
           Suc (clock_reads s) \<and>
         clock_reads (snd (get_orders_by_path e account_id max_results PNone PNone status
                             statuses s)) = Suc (clock_reads s)"
    by (simp add: get_orders_by_query_fst get_orders_by_path_fst)
next
  assume bad: "\<not> ((status = PNone \<or> statuses = PNone) \<and>
       (truthy statuses \<longrightarrow> (\<exists>j. py_join '','' statuses = Inr j)))"
  from order_query_raises[OF bad, of e max_results PNone PNone s]
  obtain err where "fst (make_order_query e max_results PNone PNone status statuses s) = Inl err"
    by blast
  then show "\<exists>err. fst (get_orders_by_query e max_results PNone PNone status statuses s) = Inl err"
    and "\<exists>err. fst (get_orders_by_path e account_id max_results PNone PNone status statuses s) =
         Inl err"
    by (simp_all add: get_orders_by_query_fst get_orders_by_path_fst)
qed

theorem order_query_default_time_bounds_witness:
  "fst (get_orders_by_query example_env PNone PNone PNone PNone PNone
          (init (PStr ''KEY'') PNone)) =
     Inr \<lparr>http_method = GET, url = ''https://api.tdameritrade.com/v1/orders'',
          query_params =
            Some [(''fromEnteredTime'', PStr ''1-01-01T00:00:00+0000''),
                  (''toEnteredTime'', PStr ''2020-03-01T12:30:00+0000'')],
          json_body = None\<rparr> \<and>
   fst (get_orders_by_query example_env PNone PNone PNone PNone PNone
          (snd (get_orders_by_query example_env PNone PNone PNone PNone PNone
                  (init (PStr ''KEY'') PNone)))) =
     Inr \<lparr>http_method = GET, url = ''https://api.tdameritrade.com/v1/orders'',
          query_params =
            Some [(''fromEnteredTime'', PStr ''1-01-01T00:00:00+0000''),
                  (''toEnteredTime'', PStr ''2020-03-01T12:30:01+0000'')],
          json_body = None\<rparr>"
proof -
  have z: "zpad 2 0 = ''00''" "zpad 2 (Suc 0) = ''01''"
    by (simp_all add: zpad_def digits.simps)
  from order_query_default_time_bounds [of PNone PNone example_env PNone
      "init (PStr ''KEY'') PNone" PNone]
  show ?thesis
    by (simp add: example_order_query init_def z)
qed

subsection \<open>List-valued parameters\<close>

text \<open>
  C7. A list of strings given as \<open>symbols\<close>, \<open>markets\<close>, \<open>fields\<close> or \<open>statuses\<close>
  reaches the query as one string: the first item, then each further item in the
  caller's order with a comma before it (\<open>statuses\<close> and \<open>fields\<close> are sent when the
  list is not empty). In particular \<open>get_quotes(["AAPL", "MSFT"])\<close> asks for
  \<open>/v1/marketdata/quotes\<close> with the query \<open>{apikey: key, symbol: "AAPL,MSFT"}\<close>.
\<close>

theorem list_parameters_comma_joined:
  "join '','' xs = (case xs of [] \<Rightarrow> [] | x # ys \<Rightarrow> x @ concat (map ((@) '','') ys)) \<and>
   join '','' [a, b, c] = a @ '','' @ b @ '','' @ c \<and>
   fst (get_quotes (PList (map PStr ss)) s) =
     Inr \<lparr>http_method = GET, url = base_url @ ''/v1/marketdata/quotes'',
          query_params = Some [(''apikey'', api_key (self s)),
                               (''symbol'', PStr (join '','' ss))],
          json_body = None\<rparr> \<and>
   (\<forall>d. format_datetime date = Inr d \<longrightarrow>
      fst (get_hours_for_multiple_markets (PList (map PStr ss)) date s) =
        Inr \<lparr>http_method = GET, url = base_url @ ''/v1/marketdata/hours'',
             query_params = Some [(''apikey'', api_key (self s)),
                                  (''markets'', PStr (join '','' ss)), (''date'', PStr d)],
             json_body = None\<rparr>) \<and>
   (ss \<noteq> [] \<longrightarrow>
      fst (get_account e account_id (PList (map PStr ss)) s) =
        Inr \<lparr>http_method = GET, url = base_url @ ''/v1/accounts/'' @ py_str e account_id,
             query_params = Some [(''fields'', PStr (join '','' ss))], json_body = None\<rparr> \<and>
      fst (get_accounts (PList (map PStr ss)) s) =
        Inr \<lparr>http_method = GET, url = base_url @ ''/v1/accounts'',
             query_params = Some [(''fields'', PStr (join '','' ss))], json_body = None\<rparr>) \<and>
   (ss \<noteq> [] \<and> (f = PNone \<or> is_timestamp f) \<and> (t = PNone \<or> is_timestamp t) \<longrightarrow>
      (\<exists>q. fst (get_orders_by_query e max_results f t PNone (PList (map PStr ss)) s) =
             Inr \<lparr>http_method = GET, url = base_url @ ''/v1/orders'',
                  query_params = Some q, json_body = None\<rparr> \<and>
           fst (get_orders_by_path e account_id max_results f t PNone (PList (map PStr ss)) s) =
             Inr \<lparr>http_method = GET,
                  url = base_url @ ''/v1/accounts/'' @ py_str e account_id @ ''/orders'',
                  query_params = Some q, json_body = None\<rparr> \<and>
           map_of q ''status'' = Some (PStr (join '','' ss))))"
proof (intro conjI impI allI)
  show "join '','' xs = (case xs of [] \<Rightarrow> [] | x # ys \<Rightarrow> x @ concat (map ((@) '','') ys))"
    by (rule join_concat)
  show "join '','' [a, b, c] = a @ '','' @ b @ '','' @ c" by simp
  show "fst (get_quotes (PList (map PStr ss)) s) =
     Inr \<lparr>http_method = GET, url = base_url @ ''/v1/marketdata/quotes'',
          query_params = Some [(''apikey'', api_key (self s)),
                               (''symbol'', PStr (join '','' ss))],
          json_body = None\<rparr>"
    by (simp add: get_quotes_def str_items_strs get_request_def dispatch_def Let_def)
next
  fix d assume "format_datetime date = Inr d"
  then show "fst (get_hours_for_multiple_markets (PList (map PStr ss)) date s) =
        Inr \<lparr>http_method = GET, url = base_url @ ''/v1/marketdata/hours'',
             query_params = Some [(''apikey'', api_key (self s)),
                                  (''markets'', PStr (join '','' ss)), (''date'', PStr d)],
             json_body = None\<rparr>"
    by (simp add: get_hours_for_multiple_markets_def str_items_strs get_request_def
        dispatch_def print_def Let_def)
next
  assume "ss \<noteq> []"
  then show "fst (get_account e account_id (PList (map PStr ss)) s) =
        Inr \<lparr>http_method = GET, url = base_url @ ''/v1/accounts/'' @ py_str e account_id,
             query_params = Some [(''fields'', PStr (join '','' ss))], json_body = None\<rparr>"
    by (simp add: get_account_def str_items_strs get_request_def dispatch_def Let_def)
next
  assume "ss \<noteq> []"
  then show "fst (get_accounts (PList (map PStr ss)) s) =
        Inr \<lparr>http_method = GET, url = base_url @ ''/v1/accounts'',
             query_params = Some [(''fields'', PStr (join '','' ss))], json_body = None\<rparr>"
    by (simp add: get_accounts_def str_items_strs get_request_def dispatch_def Let_def)
next
  assume a: "ss \<noteq> [] \<and> (f = PNone \<or> is_timestamp f) \<and> (t = PNone \<or> is_timestamp t)"
  then obtain q where "fst (make_order_query e max_results f t PNone (PList (map PStr ss)) s) =
      Inr q" "map_of q ''status'' = Some (PStr (join '','' ss))"
    using order_query_statuses_joined[of ss f t e max_results s] by blast
  then show "\<exists>q. fst (get_orders_by_query e max_results f t PNone (PList (map PStr ss)) s) =
             Inr \<lparr>http_method = GET, url = base_url @ ''/v1/orders'',
                  query_params = Some q, json_body = None\<rparr> \<and>
           fst (get_orders_by_path e account_id max_results f t PNone (PList (map PStr ss)) s) =
             Inr \<lparr>http_method = GET,
                  url = base_url @ ''/v1/accounts/'' @ py_str e account_id @ ''/orders'',
                  query_params = Some q, json_body = None\<rparr> \<and>
           map_of q ''status'' = Some (PStr (join '','' ss))"
    by (simp add: get_orders_by_query_fst get_orders_by_path_fst)
qed

theorem list_parameters_comma_joined_witness:
  "fst (get_quotes (PList [PStr ''AAPL'', PStr ''MSFT'']) (init (PStr ''KEY'') PNone)) =
     Inr \<lparr>http_method = GET, url = ''https://api.tdameritrade.com/v1/marketdata/quotes'',
          query_params = Some [(''apikey'', PStr ''KEY''), (''symbol'', PStr ''AAPL,MSFT'')],
          json_body = None\<rparr> \<and>
   fst (get_hours_for_multiple_markets (PList [PStr ''EQUITY'', PStr ''OPTION''])
          (PDatetime example_datetime) (init (PStr ''KEY'') PNone)) =
     Inr \<lparr>http_method = GET, url = ''https://api.tdameritrade.com/v1/marketdata/hours'',
          query_params = Some [(''apikey'', PStr ''KEY''), (''markets'', PStr ''EQUITY,OPTION''),
                               (''date'', PStr ''2020-03-01T12:30:15+0530'')],
          json_body = None\<rparr> \<and>
   fst (get_accounts (PList [PStr ''positions'', PStr ''orders'']) (init (PStr ''KEY'') PNone)) =
     Inr \<lparr>http_method = GET, url = ''https://api.tdameritrade.com/v1/accounts'',
          query_params = Some [(''fields'', PStr ''positions,orders'')], json_body = None\<rparr>"
proof -
  have f1: "format_datetime (PDatetime example_datetime) = Inr ''2020-03-01T12:30:15+0530''"
    by (simp add: example_datetime_def Let_def strftime_iso_def strftime_date_def
        strftime_time_def strftime_z_def zpad_def digits.simps)
  from list_parameters_comma_joined [of _ _ _ _ "[''AAPL'', ''MSFT'']" "init (PStr ''KEY'') PNone"]
    list_parameters_comma_joined [of _ _ _ _ "[''EQUITY'', ''OPTION'']" "init (PStr ''KEY'') PNone"
      "PDatetime example_datetime"]
    list_parameters_comma_joined [of _ _ _ _ "[''positions'', ''orders'']"
      "init (PStr ''KEY'') PNone"]
    f1
  show ?thesis
    by (simp add: init_def base_url_def del: format_datetime.simps)
qed

subsection \<open>The API key in the query\<close>



subsection \<open>Milliseconds since the epoch, and where they are used\<close>



end
